theory Spec2Isabelle
  imports Main "HOL-Library.Sublist"
begin

section \<open>Data model\<close>

text \<open>
  Go strings and byte slices are sequences of bytes: both are \<open>string\<close> here.
  A Go \<open>int\<close> status code is only compared with constants, so it is an \<open>int\<close>.
\<close>

type_synonym bytes = string

text \<open>
  Modelled from the spec: the declarations of \<open>ErrorResponse\<close>, \<open>VertexAIErrorResponse\<close>
  and of the inner error they point to are not part of the source files. The spec gives
  both envelopes the shape \<open>{error: {type, message}}\<close>; the inner payload is this record.
\<close>

record APIError =
  Type :: string
  Message :: string

text \<open>
  The operands of a \<open>fmt.Errorf\<close> call. \<open>ArgErr\<close> is the operand of the \<open>%w\<close> verb,
  the error that the result wraps.
\<close>

datatype fmt_arg = ArgInt int | ArgErr APIError

text \<open>
  The error values of the package:
  \<^item> \<open>RequestError\<close> is the struct literal \<open>RequestError{StatusCode, Err, RawBody}\<close>; a field the
    literal leaves out, or sets to nil, is \<open>None\<close>;
  \<^item> \<open>Errorf\<close> is the result of \<open>fmt.Errorf\<close>, kept as its format string and operands;
  \<^item> \<open>ExternalError\<close> is an error produced by library code (transport, io, encoding/json,
    net/http), opaque to this package.
\<close>

datatype go_error =
    RequestError int "go_error option" "bytes option"
  | Errorf string "fmt_arg list"
  | ExternalError string

text \<open>A run-time panic is not an error value: it is an outcome of its own.\<close>

datatype panic = SliceBoundsOutOfRange

subsection \<open>HTTP headers\<close>

text \<open>
  \<open>http.Header\<close> is \<open>map[string][]string\<close>. \<open>Header.Set\<close> stores a single value under
  the canonical form of the key (\<open>textproto.CanonicalMIMEHeaderKey\<close>): when every byte of the
  key is a token byte, the first letter and every letter after a hyphen are upper case and
  the others lower case; any other key is left as it is.
\<close>

type_synonym Header = "string \<rightharpoonup> string list"

definition isLower :: "char \<Rightarrow> bool" where
  "isLower c = (let n = (of_char c :: nat) in 97 \<le> n \<and> n \<le> 122)"

definition isUpper :: "char \<Rightarrow> bool" where
  "isUpper c = (let n = (of_char c :: nat) in 65 \<le> n \<and> n \<le> 90)"

definition isDigit :: "char \<Rightarrow> bool" where
  "isDigit c = (let n = (of_char c :: nat) in 48 \<le> n \<and> n \<le> 57)"

definition validHeaderFieldByte :: "char \<Rightarrow> bool" where
  "validHeaderFieldByte c =
     (isLower c \<or> isUpper c \<or> isDigit c \<or>
      (of_char c :: nat) \<in> {33, 35, 36, 37, 38, 39, 42, 43, 45, 46, 94, 95, 96, 124, 126})"

fun canonicalCase :: "bool \<Rightarrow> string \<Rightarrow> string" where
  "canonicalCase upper [] = []"
| "canonicalCase upper (c # cs) =
     (let c' = (if upper \<and> isLower c then char_of ((of_char c :: nat) - 32)
                else if \<not> upper \<and> isUpper c then char_of ((of_char c :: nat) + 32)
                else c)
      in c' # canonicalCase (c' = CHR ''-'') cs)"

definition CanonicalMIMEHeaderKey :: "string \<Rightarrow> string" where
  "CanonicalMIMEHeaderKey s = (if list_all validHeaderFieldByte s then canonicalCase True s else s)"

definition Header_Set :: "Header \<Rightarrow> string \<Rightarrow> string \<Rightarrow> Header" where
  "Header_Set h key v = h(CanonicalMIMEHeaderKey key \<mapsto> [v])"

subsection \<open>Requests, responses, configuration\<close>

text \<open>
  The part of \<open>http.Request\<close> that the builder determines: method, URL (the string handed to
  \<open>http.NewRequestWithContext\<close>), headers and body bytes.
\<close>

record Request =
  Method :: string
  URL :: string
  Header :: Header
  Body :: bytes

text \<open>
  The part of \<open>http.Response\<close> that the dispatcher reads. \<open>ResBody\<close> is what reading the
  body stream to its end gives: the bytes read and the read error, if any.
\<close>

record HTTPResponse =
  StatusCode :: int
  ResHeader :: Header
  ResBody :: "bytes \<times> go_error option"

text \<open>
  \<open>ClientConfig\<close>, with the fields the two source files use. \<open>HTTPClient\<close> is the transport's
  \<open>Do\<close>: it gives a response or a transport error.
\<close>

record ClientConfig =
  apikey :: string
  apiKeyFunc :: "(unit \<Rightarrow> string) option"
  BaseURL :: string
  APIVersion :: string
  HTTPClient :: "Request \<Rightarrow> go_error + HTTPResponse"

record Client =
  config :: ClientConfig

text \<open>
  What the package takes from outside the two source files:
  \<^item> \<open>isVertexAI\<close>, the classification of the protocol version string (declared elsewhere in
    the package);
  \<^item> \<open>newRequestWithContext\<close>, the validation of \<open>http.NewRequestWithContext\<close>: the error
    it returns for a method and URL, if any;
  \<^item> \<open>unmarshalErrorResponse\<close> and \<open>unmarshalVertexAIErrorResponse\<close>: \<open>json.Unmarshal\<close> into
    the two envelopes, giving the parse error (if any) and the envelope's \<open>Error\<close> field after
    the call (\<open>None\<close> when nil);
  \<^item> \<open>decodeJSON\<close>: \<open>json.NewDecoder(body).Decode(v)\<close>, giving the decoded fields of the result
    object after the call and the error, if any.
\<close>

record 'r deps =
  isVertexAI :: "string \<Rightarrow> bool"
  newRequestWithContext :: "string \<Rightarrow> string \<Rightarrow> go_error option"
  unmarshalErrorResponse :: "bytes \<Rightarrow> go_error option \<times> APIError option"
  unmarshalVertexAIErrorResponse :: "bytes \<Rightarrow> go_error option \<times> APIError option"
  decodeJSON :: "bytes \<times> go_error option \<Rightarrow> 'r \<Rightarrow> 'r \<times> go_error option"

section \<open>common.go\<close>

definition ModelClaudeInstant1Dot2 :: string where
  "ModelClaudeInstant1Dot2 = ''claude-instant-1.2''"

definition ModelClaude2Dot0 :: string where
  "ModelClaude2Dot0 = ''claude-2.0''"

definition ModelClaude2Dot1 :: string where
  "ModelClaude2Dot1 = ''claude-2.1''"

definition ModelClaude3Opus20240229 :: string where
  "ModelClaude3Opus20240229 = ''claude-3-opus-20240229''"

definition ModelClaude3Sonnet20240229 :: string where
  "ModelClaude3Sonnet20240229 = ''claude-3-sonnet-20240229''"

definition ModelClaude3Haiku20240307 :: string where
  "ModelClaude3Haiku20240307 = ''claude-3-haiku-20240307''"

definition translateVertexModel :: "string \<Rightarrow> string" where
  "translateVertexModel model =
     (if model = ModelClaude3Haiku20240307 then ''claude-3-haiku@20240307''
      else if model = ModelClaude3Opus20240229 then ''claude-3-opus@20240229''
      else if model = ModelClaude3Sonnet20240229 then ''claude-3-sonnet@20240229''
      else model)"

section \<open>client.go\<close>

definition IsVertexAI :: "'r deps \<Rightarrow> Client \<Rightarrow> bool" where
  "IsVertexAI d c = isVertexAI d (APIVersion (config c))"

text \<open>
  \<open>fullURL\<close>; its parameter \<open>suffix\<close> is \<open>sfx\<close> here. The slice expression
  \<open>suffix[1:]\<close> panics on the empty string; \<open>fmt.Sprintf\<close> with \<open>%s\<close> verbs is
  concatenation.
\<close>

definition fullURL :: "'r deps \<Rightarrow> Client \<Rightarrow> string \<Rightarrow> string \<Rightarrow> panic + string" where
  "fullURL d c sfx model =
     (if isVertexAI d (APIVersion (config c)) then
        (if sfx = [] then Inl SliceBoundsOutOfRange
         else Inr (BaseURL (config c) @ ''/'' @ translateVertexModel model @ '':'' @ drop 1 sfx))
      else Inr (BaseURL (config c) @ sfx))"

text \<open>
  A request body is a Go interface value (\<open>any\<close>): \<open>None\<close> is nil, and a non-nil body is a
  value with the behaviour of its dynamic type: whether the type assertion
  \<open>body.(VertexAISupport)\<close> holds (then with the two methods of that interface), and what
  \<open>json.Marshal\<close> makes of it. \<open>SetAnthropicVersion\<close> changes the body in place, so the
  builder also returns the body as it is after the call.
\<close>

record 'v VertexAISupport =
  GetModel :: "'v \<Rightarrow> string"
  SetAnthropicVersion :: "'v \<Rightarrow> string \<Rightarrow> 'v"

record 'v body =
  content :: 'v
  asVertexAISupport :: "'v VertexAISupport option"
  marshal :: "'v \<Rightarrow> go_error + bytes"

datatype 'a outcome = Return 'a | Failed go_error | Panicked panic

type_synonym requestSetter = "Request \<Rightarrow> Request"

definition withBetaVersion :: "string \<Rightarrow> requestSetter" where
  "withBetaVersion version = (\<lambda>req. req\<lparr>Header := Header_Set (Header req) ''anthropic-beta'' version\<rparr>)"

text \<open>
  \<open>newRequest\<close>, in the order of the source: the capability check of a gateway call with a
  non-nil body, the serialisation of the body, the URL, \<open>http.NewRequestWithContext\<close> (which
  turns an empty method into GET), the headers, the request setters.
\<close>

definition newRequest ::
  "'r deps \<Rightarrow> Client \<Rightarrow> string \<Rightarrow> string \<Rightarrow> 'v body option \<Rightarrow> requestSetter list
     \<Rightarrow> 'v body option \<times> Request outcome" where
  "newRequest d c method urlSuffix body requestSetters =
     (case (case body of
              None \<Rightarrow> Inr ([], None)
            | Some b \<Rightarrow>
                if isVertexAI d (APIVersion (config c)) then
                  (case asVertexAISupport b of
                     Some vertexAISupport \<Rightarrow>
                       Inr (GetModel vertexAISupport (content b),
                            Some (b\<lparr>content :=
                              SetAnthropicVersion vertexAISupport (content b) (APIVersion (config c))\<rparr>))
                   | None \<Rightarrow> Inl (Errorf ''this call not supported by the Vertex AI API'' []))
                else Inr ([], Some b)) of
        Inl err \<Rightarrow> (body, Failed err)
      | Inr (model, body') \<Rightarrow>
          (case (case body' of None \<Rightarrow> Inr [] | Some b \<Rightarrow> marshal b (content b)) of
             Inl err \<Rightarrow> (body', Failed err)
           | Inr reqBody \<Rightarrow>
               (case fullURL d c urlSuffix model of
                  Inl p \<Rightarrow> (body', Panicked p)
                | Inr url \<Rightarrow>
                    (case newRequestWithContext d method url of
                       Some err \<Rightarrow> (body', Failed err)
                     | None \<Rightarrow>
                         (let req = \<lparr>Method = (if method = [] then ''GET'' else method), URL = url,
                                     Header = Map.empty, Body = reqBody\<rparr>;
                              req = req\<lparr>Header := Header_Set (Header req) ''Content-Type''
                                          ''application/json; charset=utf-8''\<rparr>;
                              req = req\<lparr>Header := Header_Set (Header req) ''Accept''
                                          ''application/json; charset=utf-8''\<rparr>;
                              apiKey = (case apiKeyFunc (config c) of
                                          Some f \<Rightarrow> f ()
                                        | None \<Rightarrow> apikey (config c));
                              req = (if isVertexAI d (APIVersion (config c)) then
                                       req\<lparr>Header := Header_Set (Header req) ''Authorization''
                                                    (''Bearer '' @ apiKey)\<rparr>
                                     else
                                       (let req = req\<lparr>Header := Header_Set (Header req) ''X-Api-Key'' apiKey\<rparr>
                                        in req\<lparr>Header := Header_Set (Header req) ''Anthropic-Version''
                                                       (APIVersion (config c))\<rparr>))
                          in (body', Return (foldl (\<lambda>req setter. setter req) req requestSetters)))))))"

definition newStreamRequest ::
  "'r deps \<Rightarrow> Client \<Rightarrow> string \<Rightarrow> string \<Rightarrow> 'v body option \<Rightarrow> requestSetter list
     \<Rightarrow> 'v body option \<times> Request outcome" where
  "newStreamRequest d c method urlSuffix body requestSetters =
     (case newRequest d c method urlSuffix body requestSetters of
        (body', Failed err) \<Rightarrow> (body', Failed err)
      | (body', Panicked p) \<Rightarrow> (body', Panicked p)
      | (body', Return req) \<Rightarrow>
          (let req = req\<lparr>Header := Header_Set (Header req) ''Accept'' ''text/event-stream''\<rparr>;
               req = req\<lparr>Header := Header_Set (Header req) ''Cache-Control'' ''no-cache''\<rparr>;
               req = req\<lparr>Header := Header_Set (Header req) ''Connection'' ''keep-alive''\<rparr>
           in (body', Return req)))"

subsection \<open>Dispatch and error decoding\<close>

definition StatusOK :: int where
  "StatusOK = 200"

definition StatusBadRequest :: int where
  "StatusBadRequest = 400"

text \<open>
  \<open>handlerRequestError\<close>: \<open>None\<close> is the nil error. The read of the body (\<open>io.ReadAll\<close>) and the
  two \<open>json.Unmarshal\<close> calls are those of the source, in its order.
\<close>

definition handlerRequestError :: "'r deps \<Rightarrow> Client \<Rightarrow> HTTPResponse \<Rightarrow> go_error option" where
  "handlerRequestError d c resp =
     (if StatusCode resp < StatusOK \<or> StatusCode resp \<ge> StatusBadRequest then
        (case ResBody resp of
           (bodyBytes, Some err) \<Rightarrow> Some (RequestError (StatusCode resp) (Some err) None)
         | (bodyBytes, None) \<Rightarrow>
             if IsVertexAI d c \<and> StatusCode resp = 401 then
               (case unmarshalVertexAIErrorResponse d bodyBytes of
                  (None, Some errResError) \<Rightarrow>
                    Some (Errorf ''error, status code: %d, message: %w''
                            [ArgInt (StatusCode resp), ArgErr errResError])
                | (err, _) \<Rightarrow> Some (RequestError (StatusCode resp) err (Some bodyBytes)))
             else
               (case unmarshalErrorResponse d bodyBytes of
                  (None, Some errResError) \<Rightarrow>
                    Some (Errorf ''error, status code: %d, message: %w''
                            [ArgInt (StatusCode resp), ArgErr errResError])
                | (err, _) \<Rightarrow> Some (RequestError (StatusCode resp) err (Some bodyBytes))))
      else None)"

text \<open>
  A result object: the embedded \<open>httpHeader\<close>, which \<open>SetHeader\<close> overwrites, and the fields
  that JSON decoding fills (\<open>httpHeader\<close> is not among them: it is an unexported embedded map).
\<close>

record 'r Response =
  httpHeader :: Header
  payload :: 'r

definition SetHeader :: "'r Response \<Rightarrow> Header \<Rightarrow> 'r Response" where
  "SetHeader h header = h\<lparr>httpHeader := header\<rparr>"

text \<open>
  \<open>sendRequest\<close> returns the result object \<open>v\<close> as it is after the call, and the error
  (\<open>None\<close> is nil).
\<close>

definition sendRequest ::
  "'r deps \<Rightarrow> Client \<Rightarrow> Request \<Rightarrow> 'r Response \<Rightarrow> 'r Response \<times> go_error option" where
  "sendRequest d c req v =
     (case HTTPClient (config c) req of
        Inl err \<Rightarrow> (v, Some err)
      | Inr res \<Rightarrow>
          (let v = SetHeader v (ResHeader res) in
           (case handlerRequestError d c res of
              Some err \<Rightarrow> (v, Some err)
            | None \<Rightarrow>
                (case decodeJSON d (ResBody res) (payload v) of
                   (decoded, Some err) \<Rightarrow> (v\<lparr>payload := decoded\<rparr>, Some err)
                 | (decoded, None) \<Rightarrow> (v\<lparr>payload := decoded\<rparr>, None)))))"

section \<open>Example configurations\<close>

text \<open>
  Concrete instances on which the theorems below are run: a classification that recognises
  one gateway version string, a request validation that rejects a method with a space, error
  parsers and a result decoder that know a few literal bodies.
\<close>

definition exampleDeps :: "string deps" where
  \<open>exampleDeps =
     \<lparr>isVertexAI = (\<lambda>v. v = ''vertex-2023-10-16''),
      newRequestWithContext =
        (\<lambda>method url. if CHR '' '' \<in> set method
                       then Some (ExternalError ''net/http: invalid method'') else None),
      unmarshalErrorResponse =
        (\<lambda>b. if b = ''{"error":{"type":"rate_limit_error","message":"slow down"}}''
              then (None, Some \<lparr>Type = ''rate_limit_error'', Message = ''slow down''\<rparr>)
              else if b = ''{}'' then (None, None)
              else (Some (ExternalError ''invalid character''), None)),
      unmarshalVertexAIErrorResponse =
        (\<lambda>b. if b = ''{"error":{"type":"UNAUTHENTICATED","message":"bad token"}}''
              then (None, Some \<lparr>Type = ''UNAUTHENTICATED'', Message = ''bad token''\<rparr>)
              else if b = ''{}'' then (None, None)
              else (Some (ExternalError ''invalid character''), None)),
      decodeJSON =
        (\<lambda>(b, readErr) old.
           case readErr of
             Some err \<Rightarrow> (old, Some err)
           | None \<Rightarrow> if b = ''{"id":"msg_1"}'' then (''msg_1'', None)
                     else (old, Some (ExternalError ''invalid character'')))\<rparr>\<close>

definition exampleClient :: "string \<Rightarrow> (Request \<Rightarrow> go_error + HTTPResponse) \<Rightarrow> Client" where
  "exampleClient version transport =
     \<lparr>config = \<lparr>apikey = ''secret'', apiKeyFunc = None, BaseURL = ''https://host'',
                 APIVersion = version, HTTPClient = transport\<rparr>\<rparr>"

definition response :: "int \<Rightarrow> bytes \<Rightarrow> HTTPResponse" where
  "response code b =
     \<lparr>StatusCode = code, ResHeader = [''Request-Id'' \<mapsto> [''req_1'']], ResBody = (b, None)\<rparr>"

definition vertexClient :: Client where
  \<open>vertexClient = exampleClient ''vertex-2023-10-16'' (\<lambda>req. Inr (response 200 ''{"id":"msg_1"}''))\<close>

definition directClient :: Client where
  \<open>directClient = exampleClient ''2023-06-01'' (\<lambda>req. Inr (response 200 ''{"id":"msg_1"}''))\<close>

definition gatewayUnauthorized :: HTTPResponse where
  \<open>gatewayUnauthorized =
     response 401 ''{"error":{"type":"UNAUTHENTICATED","message":"bad token"}}''\<close>

definition badGateway :: HTTPResponse where
  "badGateway = response 502 ''<html>502 Bad Gateway</html>''"

definition nullError :: HTTPResponse where
  "nullError = response 500 ''{}''"

definition exampleRequest :: Request where
  "exampleRequest =
     \<lparr>Method = ''POST'', URL = ''https://host/v1/messages'', Header = Map.empty, Body = []\<rparr>"

text \<open>
  A body that has the gateway capability (a model and a version field), and one that has not.
\<close>

definition messagesBody :: "string \<Rightarrow> (string \<times> string) body" where
  \<open>messagesBody model =
     \<lparr>content = (model, []),
      asVertexAISupport = Some \<lparr>GetModel = fst, SetAnthropicVersion = (\<lambda>v version. (fst v, version))\<rparr>,
      marshal = (\<lambda>v. Inr (''{"model":"'' @ fst v @ ''","anthropic_version":"'' @ snd v @ ''"}''))\<rparr>\<close>

definition plainBody :: "(string \<times> string) body" where
  \<open>plainBody =
     \<lparr>content = (''text'', []),
      asVertexAISupport = None,
      marshal = (\<lambda>v. Inr (''{"prompt":"'' @ fst v @ ''"}''))\<rparr>\<close>

definition emptyResult :: "string Response" where
  "emptyResult = \<lparr>httpHeader = Map.empty, payload = []\<rparr>"

section \<open>Auxiliary facts\<close>

text \<open>The header keys the package writes, in canonical form.\<close>

lemma canonical_keys:
  "CanonicalMIMEHeaderKey ''Content-Type'' = ''Content-Type''"
  "CanonicalMIMEHeaderKey ''Accept'' = ''Accept''"
  "CanonicalMIMEHeaderKey ''Authorization'' = ''Authorization''"
  "CanonicalMIMEHeaderKey ''X-Api-Key'' = ''X-Api-Key''"
  "CanonicalMIMEHeaderKey ''Anthropic-Version'' = ''Anthropic-Version''"
  "CanonicalMIMEHeaderKey ''anthropic-beta'' = ''Anthropic-Beta''"
  "CanonicalMIMEHeaderKey ''Cache-Control'' = ''Cache-Control''"
  "CanonicalMIMEHeaderKey ''Connection'' = ''Connection''"
  by code_simp+

text \<open>
  The request setters of the package are made by \<open>withBetaVersion\<close>: a list of them changes
  the \<open>Anthropic-Beta\<close> header and nothing else.
\<close>

lemma beta_URL: "URL (foldl (\<lambda>req setter. setter req) r (map withBetaVersion vs)) = URL r"
  by (induction vs arbitrary: r) (simp_all add: withBetaVersion_def)

lemma beta_Method: "Method (foldl (\<lambda>req setter. setter req) r (map withBetaVersion vs)) = Method r"
  by (induction vs arbitrary: r) (simp_all add: withBetaVersion_def)

lemma beta_Body: "Body (foldl (\<lambda>req setter. setter req) r (map withBetaVersion vs)) = Body r"
  by (induction vs arbitrary: r) (simp_all add: withBetaVersion_def)

lemma beta_Header:
  "k \<noteq> ''Anthropic-Beta'' \<Longrightarrow>
     Header (foldl (\<lambda>req setter. setter req) r (map withBetaVersion vs)) k = Header r k"
  by (induction vs arbitrary: r) (simp_all add: withBetaVersion_def Header_Set_def canonical_keys)

text \<open>
  Two outcomes that the theorems below leave aside. When reading the error body fails, the
  \<open>RequestError\<close> has the status code and the read error, and no raw body. On a gateway-mode
  client an empty path suffix makes \<open>fullURL\<close> panic.
\<close>

lemma unreadable_error_body:
  assumes "StatusCode resp < 200 \<or> 400 \<le> StatusCode resp"
    and "ResBody resp = (bodyBytes, Some err)"
  shows "handlerRequestError d c resp = Some (RequestError (StatusCode resp) (Some err) None)"
  using assms by (auto simp: handlerRequestError_def StatusOK_def StatusBadRequest_def)

lemma gateway_empty_suffix_panics:
  assumes "isVertexAI d (APIVersion (config c))"
  shows "newRequest d c method [] None setters = (None, Panicked SliceBoundsOutOfRange)"
  using assms by (simp add: newRequest_def fullURL_def)

text \<open>
  On a gateway-mode client a body that has the capability is given the configured protocol
  version before it is serialised, in every outcome of the builder.
\<close>

lemma gateway_body_with_capability:
  assumes "isVertexAI d (APIVersion (config c))"
    and "asVertexAISupport b = Some m"
  shows "fst (newRequest d c method sfx (Some b) setters) =
           Some (b\<lparr>content := SetAnthropicVersion m (content b) (APIVersion (config c))\<rparr>)"
  using assms
  by (simp add: newRequest_def Let_def split: sum.splits option.splits)

section \<open>Model translation\<close>

text \<open>
  C7. \<open>translateVertexModel\<close> maps each of the three identifiers of its table to the gateway
  identifier (the date after an at sign), and returns every other identifier unchanged. It is a
  total function: it has a value on every string.
\<close>

theorem translateVertexModel_table:
  "translateVertexModel ModelClaude3Haiku20240307 = ''claude-3-haiku@20240307'' \<and>
   translateVertexModel ModelClaude3Opus20240229 = ''claude-3-opus@20240229'' \<and>
   translateVertexModel ModelClaude3Sonnet20240229 = ''claude-3-sonnet@20240229'' \<and>
   (\<forall>model. model \<notin> {ModelClaude3Haiku20240307, ModelClaude3Opus20240229,
                       ModelClaude3Sonnet20240229}
      \<longrightarrow> translateVertexModel model = model)"
  by (simp add: translateVertexModel_def ModelClaude3Haiku20240307_def
        ModelClaude3Opus20240229_def ModelClaude3Sonnet20240229_def)

theorem translateVertexModel_table_witness:
  "ModelClaude2Dot1 \<notin> {ModelClaude3Haiku20240307, ModelClaude3Opus20240229,
                        ModelClaude3Sonnet20240229} \<and>
   translateVertexModel ModelClaude2Dot1 = ''claude-2.1''"
proof -
  have absent: "ModelClaude2Dot1 \<notin> {ModelClaude3Haiku20240307, ModelClaude3Opus20240229,
                                      ModelClaude3Sonnet20240229}"
    by (simp add: ModelClaude2Dot1_def ModelClaude3Haiku20240307_def
          ModelClaude3Opus20240229_def ModelClaude3Sonnet20240229_def)
  with translateVertexModel_table have "translateVertexModel ModelClaude2Dot1 = ModelClaude2Dot1"
    by blast
  with absent show ?thesis by (simp add: ModelClaude2Dot1_def)
qed

section \<open>URL of a gateway request\<close>

text \<open>
  C1, as the spec states it, fails: for the path suffix \<open>/v1/messages\<close> and the model
  \<open>claude-3-haiku-20240307\<close> the gateway URL does not end with
  \<open>claude-3-haiku@20240307:messages\<close>. Only the first byte of the suffix is replaced by the
  colon, so the rest of the suffix, \<open>v1/messages\<close>, follows it.
\<close>

theorem gateway_url_counterexample:
  "(case snd (newRequest exampleDeps vertexClient ''POST'' ''/v1/messages''
                 (Some (messagesBody ModelClaude3Haiku20240307)) []) of
      Return req \<Rightarrow> \<not> suffix ''claude-3-haiku@20240307:messages'' (URL req)
    | _ \<Rightarrow> False)"
  by (simp add: newRequest_def fullURL_def exampleDeps_def vertexClient_def exampleClient_def
        messagesBody_def translateVertexModel_def ModelClaude3Haiku20240307_def Let_def
        suffix_to_prefix)

text \<open>
  C1, amended. For a gateway-mode client, a request built with path suffix \<open>/v1/messages\<close>
  from a body whose model is \<open>claude-3-haiku-20240307\<close> has the URL
  base URL, slash, \<open>claude-3-haiku@20240307:v1/messages\<close>: the translated model is put
  between the base URL and the suffix, whose leading slash has become a colon. So the URL
  ends with \<open>claude-3-haiku@20240307:v1/messages\<close>.
\<close>

theorem gateway_messages_url:
  assumes "isVertexAI d (APIVersion (config c))"
    and "asVertexAISupport b = Some m"
    and "GetModel m (content b) = ModelClaude3Haiku20240307"
    and "newRequest d c method ''/v1/messages'' (Some b) (map withBetaVersion vs) = (b', Return req)"
  shows "URL req = BaseURL (config c) @ ''/claude-3-haiku@20240307:v1/messages'' \<and>
         suffix ''claude-3-haiku@20240307:v1/messages'' (URL req)"
proof -
  have "URL req = BaseURL (config c) @ ''/claude-3-haiku@20240307:v1/messages''"
    using assms
    by (auto simp: newRequest_def fullURL_def Let_def beta_URL translateVertexModel_def
          split: sum.splits option.splits if_splits)
  moreover have "suffix ''claude-3-haiku@20240307:v1/messages''
                   (BaseURL (config c) @ ''/claude-3-haiku@20240307:v1/messages'')"
    by (rule suffixI [of _ "BaseURL (config c) @ ''/''"]) simp
  ultimately show ?thesis by simp
qed

theorem gateway_messages_url_witness:
  "isVertexAI exampleDeps (APIVersion (config vertexClient)) \<and>
   (case snd (newRequest exampleDeps vertexClient ''POST'' ''/v1/messages''
                 (Some (messagesBody ModelClaude3Haiku20240307)) (map withBetaVersion [''tools''])) of
      Return req \<Rightarrow> URL req = ''https://host/claude-3-haiku@20240307:v1/messages''
    | _ \<Rightarrow> False)"
proof -
  let ?b = "messagesBody ModelClaude3Haiku20240307"
  have g: "isVertexAI exampleDeps (APIVersion (config vertexClient))"
    by (simp add: exampleDeps_def vertexClient_def exampleClient_def)
  obtain m where m: "asVertexAISupport ?b = Some m"
      "GetModel m (content ?b) = ModelClaude3Haiku20240307"
    by (simp add: messagesBody_def)
  obtain b' req where r: "newRequest exampleDeps vertexClient ''POST'' ''/v1/messages''
                 (Some ?b) (map withBetaVersion [''tools'']) = (b', Return req)"
    by (simp add: newRequest_def fullURL_def exampleDeps_def vertexClient_def exampleClient_def
          messagesBody_def Let_def)
  from gateway_messages_url [OF g m r]
  have "URL req = ''https://host/claude-3-haiku@20240307:v1/messages''"
    by (simp add: vertexClient_def exampleClient_def)
  with g r show ?thesis by simp
qed

section \<open>Body capability check\<close>

text \<open>
  C2. On a gateway-mode client, a non-nil body is tested for the capability
  \<open>VertexAISupport\<close> (model getter and protocol-version setter). A body without it makes the
  request builder, and the streaming builder that calls it, return the error
  \<open>this call not supported by the Vertex AI API\<close>: no request is built, whatever the
  method, the path suffix and the setters are, and the body is left as it was.
\<close>

theorem gateway_body_without_capability:
  assumes "isVertexAI d (APIVersion (config c))"
    and "asVertexAISupport b = None"
  shows "newRequest d c method sfx (Some b) setters =
           (Some b, Failed (Errorf ''this call not supported by the Vertex AI API'' [])) \<and>
         newStreamRequest d c method sfx (Some b) setters =
           (Some b, Failed (Errorf ''this call not supported by the Vertex AI API'' []))"
  using assms by (simp add: newStreamRequest_def newRequest_def)

theorem gateway_body_without_capability_witness:
  "isVertexAI exampleDeps (APIVersion (config vertexClient)) \<and>
   asVertexAISupport plainBody = None \<and>
   snd (newRequest exampleDeps vertexClient ''POST'' ''/v1/messages'' (Some plainBody) []) =
     Failed (Errorf ''this call not supported by the Vertex AI API'' [])"
proof -
  have g: "isVertexAI exampleDeps (APIVersion (config vertexClient))"
    by (simp add: exampleDeps_def vertexClient_def exampleClient_def)
  have n: "asVertexAISupport plainBody = None"
    by (simp add: plainBody_def)
  from gateway_body_without_capability [OF g n] g n show ?thesis by simp
qed

section \<open>Error decoding\<close>

text \<open>
  C3. A response with status 401 on a gateway-mode client, with a body that was read in full
  and that parses as the gateway error envelope with a non-nil inner error, gives the
  formatted error that carries the status code 401 and wraps the parsed inner error (type
  and message). It is not a \<open>RequestError\<close>, the raw fallback.
\<close>

theorem gateway_unauthorized_decoded:
  assumes "IsVertexAI d c"
    and "StatusCode resp = 401"
    and "ResBody resp = (bodyBytes, None)"
    and "unmarshalVertexAIErrorResponse d bodyBytes = (None, Some e)"
  shows "handlerRequestError d c resp =
           Some (Errorf ''error, status code: %d, message: %w'' [ArgInt 401, ArgErr e]) \<and>
         (\<forall>code err raw. handlerRequestError d c resp \<noteq> Some (RequestError code err raw))"
  using assms by (simp add: handlerRequestError_def StatusOK_def StatusBadRequest_def)

theorem gateway_unauthorized_decoded_witness:
  "IsVertexAI exampleDeps vertexClient \<and> StatusCode gatewayUnauthorized = 401 \<and>
   handlerRequestError exampleDeps vertexClient gatewayUnauthorized =
     Some (Errorf ''error, status code: %d, message: %w''
             [ArgInt 401, ArgErr \<lparr>Type = ''UNAUTHENTICATED'', Message = ''bad token''\<rparr>])"
proof -
  have g: "IsVertexAI exampleDeps vertexClient"
    by (simp add: IsVertexAI_def exampleDeps_def vertexClient_def exampleClient_def gatewayUnauthorized_def response_def)
  have s: "StatusCode gatewayUnauthorized = 401"
    by (simp add: exampleDeps_def vertexClient_def exampleClient_def gatewayUnauthorized_def response_def)
  obtain bodyBytes where b: "ResBody gatewayUnauthorized = (bodyBytes, None)"
      and u: "unmarshalVertexAIErrorResponse exampleDeps bodyBytes =
                (None, Some \<lparr>Type = ''UNAUTHENTICATED'', Message = ''bad token''\<rparr>)"
    by (simp add: exampleDeps_def vertexClient_def exampleClient_def gatewayUnauthorized_def response_def)
  from gateway_unauthorized_decoded [OF g s b u] g s show ?thesis by simp
qed

text \<open>
  C4. For every status code below 200 or from 400 on, with a body that was read in full:
  when parsing the body against the envelope that applies (the gateway envelope for a 401
  on a gateway-mode client, the standard envelope otherwise) returns an error, or leaves
  the inner error nil, the result is the raw fallback \<open>RequestError\<close> with the status
  code of the response, the parse error (nil if there was none) and the body bytes as read.
\<close>

theorem undecodable_error_body_raw:
  assumes "StatusCode resp < 200 \<or> 400 \<le> StatusCode resp"
    and "ResBody resp = (bodyBytes, None)"
    and "(if IsVertexAI d c \<and> StatusCode resp = 401
          then unmarshalVertexAIErrorResponse d bodyBytes
          else unmarshalErrorResponse d bodyBytes) = (err, inner)"
    and "err \<noteq> None \<or> inner = None"
  shows "handlerRequestError d c resp = Some (RequestError (StatusCode resp) err (Some bodyBytes))"
  using assms
  by (auto simp: handlerRequestError_def StatusOK_def StatusBadRequest_def
        split: if_splits option.splits)

theorem undecodable_error_body_raw_witness:
  "handlerRequestError exampleDeps directClient badGateway =
     Some (RequestError 502 (Some (ExternalError ''invalid character''))
             (Some ''<html>502 Bad Gateway</html>'')) \<and>
   handlerRequestError exampleDeps directClient nullError =
     Some (RequestError 500 None (Some ''{}''))"
proof -
  have v: "\<not> IsVertexAI exampleDeps directClient"
    by (simp add: IsVertexAI_def exampleDeps_def directClient_def exampleClient_def badGateway_def nullError_def response_def)
  have b1: "StatusCode badGateway < 200 \<or> 400 \<le> StatusCode badGateway"
      "ResBody badGateway = (''<html>502 Bad Gateway</html>'', None)"
      "(if IsVertexAI exampleDeps directClient \<and> StatusCode badGateway = 401
        then unmarshalVertexAIErrorResponse exampleDeps ''<html>502 Bad Gateway</html>''
        else unmarshalErrorResponse exampleDeps ''<html>502 Bad Gateway</html>'') =
         (Some (ExternalError ''invalid character''), None)"
      "Some (ExternalError ''invalid character'') \<noteq> None \<or> (None :: APIError option) = None"
    by (simp_all add: v) (simp_all add: exampleDeps_def directClient_def exampleClient_def badGateway_def nullError_def response_def)
  have b2: "StatusCode nullError < 200 \<or> 400 \<le> StatusCode nullError"
      "ResBody nullError = (''{}'', None)"
      "(if IsVertexAI exampleDeps directClient \<and> StatusCode nullError = 401
        then unmarshalVertexAIErrorResponse exampleDeps ''{}''
        else unmarshalErrorResponse exampleDeps ''{}'') = (None, None)"
      "(None :: go_error option) \<noteq> None \<or> (None :: APIError option) = None"
    by (simp_all add: v) (simp_all add: exampleDeps_def directClient_def exampleClient_def badGateway_def nullError_def response_def)
  have s: "StatusCode badGateway = 502" "StatusCode nullError = 500"
    by (simp_all add: exampleDeps_def directClient_def exampleClient_def badGateway_def nullError_def response_def)
  from undecodable_error_body_raw [OF b1] undecodable_error_body_raw [OF b2] s show ?thesis by simp
qed

section \<open>Dispatch\<close>

text \<open>
  C5. Whenever the transport gives a response, the result object after \<open>sendRequest\<close> holds
  the headers of that response, whatever the status code and whatever the outcome. In
  particular, for a status from 200 to 399 whose body the JSON decoder rejects,
  \<open>sendRequest\<close> returns the decoder's error and the headers are stored all the same.
\<close>

theorem headers_stored_on_receipt:
  assumes "HTTPClient (config c) req = Inr res"
  shows "httpHeader (fst (sendRequest d c req v)) = ResHeader res \<and>
         (200 \<le> StatusCode res \<and> StatusCode res \<le> 399 \<and>
          snd (decodeJSON d (ResBody res) (payload v)) = Some err \<longrightarrow>
            snd (sendRequest d c req v) = Some err)"
  using assms
  by (auto simp: sendRequest_def SetHeader_def handlerRequestError_def StatusOK_def
        StatusBadRequest_def Let_def split: option.splits prod.splits)

theorem headers_stored_on_receipt_witness:
  "httpHeader (fst (sendRequest exampleDeps
       (exampleClient ''2023-06-01'' (\<lambda>req. Inr (response 200 ''<html>'')))
       exampleRequest emptyResult)) ''Request-Id'' = Some [''req_1''] \<and>
   snd (sendRequest exampleDeps
       (exampleClient ''2023-06-01'' (\<lambda>req. Inr (response 200 ''<html>'')))
       exampleRequest emptyResult) = Some (ExternalError ''invalid character'')"
proof -
  let ?c = "exampleClient ''2023-06-01'' (\<lambda>req. Inr (response 200 ''<html>''))"
  have t: "HTTPClient (config ?c) exampleRequest = Inr (response 200 ''<html>'')"
    by (simp add: exampleClient_def)
  have d: "200 \<le> StatusCode (response 200 ''<html>'') \<and> StatusCode (response 200 ''<html>'') \<le> 399 \<and>
           snd (decodeJSON exampleDeps (ResBody (response 200 ''<html>'')) (payload emptyResult)) =
             Some (ExternalError ''invalid character'')"
    by (simp add: exampleDeps_def response_def emptyResult_def)
  have h: "ResHeader (response 200 ''<html>'') ''Request-Id'' = Some [''req_1'']"
    by (simp add: response_def)
  from headers_stored_on_receipt [OF t, of exampleDeps emptyResult "ExternalError ''invalid character''"] d h
  show ?thesis by simp
qed

text \<open>
  C9. \<open>handlerRequestError\<close> returns nil exactly for the status codes from 200 to 399. For a
  received response in that range \<open>sendRequest\<close> goes on to decode the body into the result and
  returns what the decoder returns; for any other status code it returns the error of
  \<open>handlerRequestError\<close>, which is not nil, and the body is not decoded into the result.
\<close>

theorem status_check_range:
  "(handlerRequestError d c resp = None) = (200 \<le> StatusCode resp \<and> StatusCode resp \<le> 399) \<and>
   (HTTPClient (config c) req = Inr res \<longrightarrow>
      snd (sendRequest d c req v) =
        (if 200 \<le> StatusCode res \<and> StatusCode res \<le> 399
         then snd (decodeJSON d (ResBody res) (payload v))
         else handlerRequestError d c res) \<and>
      payload (fst (sendRequest d c req v)) =
        (if 200 \<le> StatusCode res \<and> StatusCode res \<le> 399
         then fst (decodeJSON d (ResBody res) (payload v))
         else payload v))"
proof -
  have a: "(handlerRequestError d c r = None) = (200 \<le> StatusCode r \<and> StatusCode r \<le> 399)" for r
    by (auto simp: handlerRequestError_def StatusOK_def StatusBadRequest_def
          split: option.splits prod.splits)
  show ?thesis
    using a [of res] a [of resp]
    by (auto simp: sendRequest_def SetHeader_def Let_def split: option.splits prod.splits)
qed

theorem status_check_range_witness:
  "handlerRequestError exampleDeps directClient (response 399 []) = None \<and>
   handlerRequestError exampleDeps directClient (response 400 []) \<noteq> None \<and>
   handlerRequestError exampleDeps directClient (response 199 []) \<noteq> None \<and>
   snd (sendRequest exampleDeps (exampleClient ''2023-06-01'' (\<lambda>req. Inr nullError))
          exampleRequest emptyResult) = Some (RequestError 500 None (Some ''{}''))"
proof -
  let ?c = "exampleClient ''2023-06-01'' (\<lambda>req. Inr nullError)"
  have t: "HTTPClient (config ?c) exampleRequest = Inr nullError"
    by (simp add: exampleClient_def)
  have s: "StatusCode nullError = 500" "StatusCode (response code b) = code" for code b
    by (simp_all add: exampleDeps_def exampleClient_def nullError_def response_def)
  have e: "handlerRequestError exampleDeps ?c nullError = Some (RequestError 500 None (Some ''{}''))"
    by (simp add: handlerRequestError_def IsVertexAI_def StatusOK_def StatusBadRequest_def exampleDeps_def exampleClient_def nullError_def response_def)
  from status_check_range [of exampleDeps directClient "response 399 []"]
       status_check_range [of exampleDeps directClient "response 400 []"]
       status_check_range [of exampleDeps directClient "response 199 []"]
       status_check_range [of exampleDeps ?c nullError exampleRequest nullError emptyResult] t s e
  show ?thesis by simp
qed

section \<open>Direct-mode requests\<close>

text \<open>
  C6. On a direct-mode client, a built request has the URL base URL followed by the path
  suffix as it is. No model takes part: \<open>fullURL\<close> gives that URL for every model, and the body
  is returned as it was passed (neither \<open>GetModel\<close> nor \<open>SetAnthropicVersion\<close> is called).
  The header \<open>X-Api-Key\<close> holds the resolved key (the key function's result when there is one,
  the static key otherwise), \<open>Anthropic-Version\<close> holds the configured version, and no
  \<open>Authorization\<close> header is set. The setters are those of \<open>withBetaVersion\<close>.
\<close>

theorem direct_request_url_and_headers:
  assumes "\<not> isVertexAI d (APIVersion (config c))"
    and "newRequest d c method sfx body (map withBetaVersion vs) = (b', Return req)"
  shows "URL req = BaseURL (config c) @ sfx \<and>
         (\<forall>model. fullURL d c sfx model = Inr (BaseURL (config c) @ sfx)) \<and>
         b' = body \<and>
         Header req ''X-Api-Key'' =
           Some [case apiKeyFunc (config c) of Some f \<Rightarrow> f () | None \<Rightarrow> apikey (config c)] \<and>
         Header req ''Anthropic-Version'' = Some [APIVersion (config c)] \<and>
         Header req ''Authorization'' = None"
  using assms
  by (auto simp: newRequest_def fullURL_def Let_def beta_URL beta_Header Header_Set_def
        canonical_keys split: sum.splits option.splits if_splits)

theorem direct_request_url_and_headers_witness:
  "\<not> isVertexAI exampleDeps (APIVersion (config directClient)) \<and>
   (case snd (newRequest exampleDeps directClient ''POST'' ''/v1/messages''
                (Some (messagesBody ModelClaude3Haiku20240307)) (map withBetaVersion [''tools''])) of
      Return req \<Rightarrow>
        URL req = ''https://host/v1/messages'' \<and> Header req ''X-Api-Key'' = Some [''secret''] \<and>
        Header req ''Anthropic-Version'' = Some [''2023-06-01'']
    | _ \<Rightarrow> False)"
proof -
  have g: "\<not> isVertexAI exampleDeps (APIVersion (config directClient))"
    by (simp add: exampleDeps_def directClient_def exampleClient_def messagesBody_def)
  obtain b' req where r: "newRequest exampleDeps directClient ''POST'' ''/v1/messages''
       (Some (messagesBody ModelClaude3Haiku20240307)) (map withBetaVersion [''tools'']) = (b', Return req)"
    by (simp add: newRequest_def fullURL_def Let_def exampleDeps_def directClient_def exampleClient_def messagesBody_def)
  from direct_request_url_and_headers [OF g r]
  have "URL req = ''https://host/v1/messages'' \<and> Header req ''X-Api-Key'' = Some [''secret''] \<and>
        Header req ''Anthropic-Version'' = Some [''2023-06-01'']"
    by (simp add: exampleDeps_def directClient_def exampleClient_def messagesBody_def)
  with g r show ?thesis by simp
qed

section \<open>Streaming requests\<close>

text \<open>
  C8. For the same inputs: when \<open>newRequest\<close> builds a request, \<open>newStreamRequest\<close> builds one
  with the same method, URL and body, with \<open>Accept\<close> set to \<open>text/event-stream\<close>,
  \<open>Cache-Control\<close> to \<open>no-cache\<close> and \<open>Connection\<close> to \<open>keep-alive\<close>, and with every other
  header (the authentication headers among them) as \<open>newRequest\<close> left it. When \<open>newRequest\<close>
  fails or panics, \<open>newStreamRequest\<close> does the same.
\<close>

theorem newStreamRequest_overrides:
  "(case newRequest d c method sfx body setters of
      (b', Return req) \<Rightarrow>
        (\<exists>sreq. newStreamRequest d c method sfx body setters = (b', Return sreq) \<and>
           Method sreq = Method req \<and> URL sreq = URL req \<and> Body sreq = Body req \<and>
           Header sreq ''Accept'' = Some [''text/event-stream''] \<and>
           Header sreq ''Cache-Control'' = Some [''no-cache''] \<and>
           Header sreq ''Connection'' = Some [''keep-alive''] \<and>
           (\<forall>k. k \<notin> {''Accept'', ''Cache-Control'', ''Connection''}
                 \<longrightarrow> Header sreq k = Header req k))
    | other \<Rightarrow> newStreamRequest d c method sfx body setters = other)"
  by (simp add: newStreamRequest_def Let_def Header_Set_def canonical_keys
        split: prod.splits outcome.splits)

theorem newStreamRequest_overrides_witness:
  "(case snd (newStreamRequest exampleDeps directClient ''POST'' ''/v1/messages''
                (Some (messagesBody ModelClaude3Haiku20240307)) [withBetaVersion ''tools'']) of
      Return sreq \<Rightarrow>
        Header sreq ''Accept'' = Some [''text/event-stream''] \<and>
        Header sreq ''Cache-Control'' = Some [''no-cache''] \<and>
        Header sreq ''Connection'' = Some [''keep-alive''] \<and>
        URL sreq = ''https://host/v1/messages'' \<and>
        Header sreq ''X-Api-Key'' = Some [''secret'']
    | _ \<Rightarrow> False)"
proof -
  obtain b' req where r: "newRequest exampleDeps directClient ''POST'' ''/v1/messages''
       (Some (messagesBody ModelClaude3Haiku20240307)) [withBetaVersion ''tools''] = (b', Return req)"
     and u: "URL req = ''https://host/v1/messages''"
     and k: "Header req ''X-Api-Key'' = Some [''secret'']"
    by (simp add: newRequest_def fullURL_def Let_def exampleDeps_def directClient_def exampleClient_def messagesBody_def withBetaVersion_def Header_Set_def
          canonical_keys)
  from newStreamRequest_overrides [of exampleDeps directClient "''POST''" "''/v1/messages''"
              "Some (messagesBody ModelClaude3Haiku20240307)" "[withBetaVersion ''tools'']"] r
  obtain sreq where
      "newStreamRequest exampleDeps directClient ''POST'' ''/v1/messages''
         (Some (messagesBody ModelClaude3Haiku20240307)) [withBetaVersion ''tools''] = (b', Return sreq)"
      "URL sreq = URL req"
      "Header sreq ''Accept'' = Some [''text/event-stream'']"
      "Header sreq ''Cache-Control'' = Some [''no-cache'']"
      "Header sreq ''Connection'' = Some [''keep-alive'']"
      "\<forall>k. k \<notin> {''Accept'', ''Cache-Control'', ''Connection''} \<longrightarrow> Header sreq k = Header req k"
    by auto
  moreover from this have "Header sreq ''X-Api-Key'' = Header req ''X-Api-Key''"
    by simp
  ultimately show ?thesis using u k by simp
qed

section \<open>Gateway requests without a body\<close>

text \<open>
  C10. On a gateway-mode client, \<open>newRequest\<close> with a nil body does not make the capability
  check and returns no configuration error: for a non-empty path suffix, and a method and URL
  that \<open>http.NewRequestWithContext\<close> accepts, it builds a request. The model is the empty
  string, so the URL is the base URL, then \<open>/:\<close>, then the suffix without its first byte
  (its leading slash), and the body is empty.
\<close>

theorem gateway_nil_body_builds:
  assumes "isVertexAI d (APIVersion (config c))"
    and "sfx \<noteq> []"
    and "newRequestWithContext d method (BaseURL (config c) @ ''/:'' @ drop 1 sfx) = None"
  shows "\<exists>req. newRequest d c method sfx None (map withBetaVersion vs) = (None, Return req) \<and>
           URL req = BaseURL (config c) @ ''/:'' @ drop 1 sfx \<and> Body req = []"
  using assms
  by (simp add: newRequest_def fullURL_def Let_def beta_URL beta_Body translateVertexModel_def
      ModelClaude3Haiku20240307_def ModelClaude3Opus20240229_def ModelClaude3Sonnet20240229_def)

theorem gateway_nil_body_builds_witness:
  "isVertexAI exampleDeps (APIVersion (config vertexClient)) \<and>
   (case newRequest exampleDeps vertexClient ''GET'' ''/v1/models''
                (None :: (string \<times> string) body option) (map withBetaVersion []) of
      (None, Return req) \<Rightarrow> URL req = ''https://host/:v1/models''
    | _ \<Rightarrow> False)"
proof -
  have g: "isVertexAI exampleDeps (APIVersion (config vertexClient))"
    by (simp add: exampleDeps_def vertexClient_def exampleClient_def)
  have n: "''/v1/models'' \<noteq> []"
    by simp
  have a: "newRequestWithContext exampleDeps ''GET''
             (BaseURL (config vertexClient) @ ''/:'' @ drop 1 ''/v1/models'') = None"
    by (simp add: exampleDeps_def vertexClient_def exampleClient_def)
  from gateway_nil_body_builds [OF g n a, of "[]"]
  obtain req where "newRequest exampleDeps vertexClient ''GET'' ''/v1/models''
                (None :: (string \<times> string) body option) (map withBetaVersion []) = (None, Return req)"
     "URL req = BaseURL (config vertexClient) @ ''/:'' @ drop 1 ''/v1/models''"
    by blast
  with g show ?thesis by (simp add: exampleDeps_def vertexClient_def exampleClient_def)
qed

end
